theory Spec2Isabelle
  imports Main "HOL-Library.Sublist"
begin

text \<open>
  The selectors of the zap-desktop renderer (\<open>reducers/info/selectors.js\<close>,
  \<open>reducers/invoice/selectors.js\<close>) and the amount shown by the \<open>RequestSummary\<close>
  component, as functions on JavaScript values. A computation that may throw returns
  \<open>Inl\<close> of the exception or \<open>Inr\<close> of its value.
\<close>

section \<open>JavaScript values\<close>

text \<open>
  The selectors read a Redux state, which is plain serialisable data. A value is
  \<open>undefined\<close>, \<open>null\<close>, a boolean, a number, a string, an array or a plain object.
  Numbers are the integer-valued ones (amounts in satoshis, counters) together with
  \<open>NaN\<close>; an object is the list of its own properties in insertion order. Functions,
  symbols and properties inherited from a prototype are not part of a state.
  Characters of a \<^typ>\<open>string\<close> stand for the code units of a JavaScript string.
\<close>

datatype jsval =
    Undefined
  | Null
  | JBool bool
  | JNum int
  | JNaN
  | JStr string
  | JArr "jsval list"
  | JObj "(string \<times> jsval) list"

text \<open>Every exception raised by the code under study is a \<open>TypeError\<close>.\<close>

datatype error = TypeError

text \<open>Sequencing of computations that may throw: the first exception wins.\<close>

fun bindE :: "error + 'a \<Rightarrow> ('a \<Rightarrow> error + 'b) \<Rightarrow> error + 'b" where
  "bindE (Inl e) f = Inl e"
| "bindE (Inr x) f = f x"

fun collect :: "(error + 'a) list \<Rightarrow> error + 'a list" where
  "collect [] = Inr []"
| "collect (Inl e # rs) = Inl e"
| "collect (Inr x # rs) = bindE (collect rs) (\<lambda>xs. Inr (x # xs))"

text \<open>\<open>ToBoolean\<close>: the falsy values are \<open>undefined\<close>, \<open>null\<close>, \<open>false\<close>, \<open>0\<close>,
  \<open>NaN\<close> and the empty string; arrays and objects are truthy, also when empty.\<close>

fun truthy :: "jsval \<Rightarrow> bool" where
  "truthy Undefined = False"
| "truthy Null = False"
| "truthy (JBool b) = b"
| "truthy (JNum n) = (n \<noteq> 0)"
| "truthy JNaN = False"
| "truthy (JStr s) = (s \<noteq> [])"
| "truthy (JArr xs) = True"
| "truthy (JObj kvs) = True"

fun nullish :: "jsval \<Rightarrow> bool" where
  "nullish Undefined = True"
| "nullish Null = True"
| "nullish v = False"

text \<open>\<open>a && b\<close> and \<open>a || b\<close>, where the right operand is evaluated (and may throw)
  only when it is needed.\<close>

definition js_and :: "jsval \<Rightarrow> (error + jsval) \<Rightarrow> error + jsval" where
  "js_and a b = (if truthy a then b else Inr a)"

definition js_or :: "jsval \<Rightarrow> (error + jsval) \<Rightarrow> error + jsval" where
  "js_or a b = (if truthy a then Inr a else b)"

subsection \<open>Numbers and strings\<close>

fun show_nat :: "nat \<Rightarrow> string" where
  "show_nat n =
     (if n < 10 then [''0123456789'' ! n]
      else show_nat (n div 10) @ [''0123456789'' ! (n mod 10)])"

definition show_int :: "int \<Rightarrow> string" where
  "show_int i = (if i < 0 then CHR ''-'' # show_nat (nat (- i)) else show_nat (nat i))"

fun join :: "string \<Rightarrow> string list \<Rightarrow> string" where
  "join sep [] = []"
| "join sep [x] = x"
| "join sep (x # y # ys) = x @ sep @ join sep (y # ys)"

text \<open>\<open>ToString\<close>, as a template literal and a computed property key apply it. An array
  is the comma-separated list of its elements, with \<open>null\<close> and \<open>undefined\<close> elements
  empty.\<close>

fun to_string :: "jsval \<Rightarrow> string" where
  "to_string Undefined = ''undefined''"
| "to_string Null = ''null''"
| "to_string (JBool b) = (if b then ''true'' else ''false'')"
| "to_string (JNum n) = show_int n"
| "to_string JNaN = ''NaN''"
| "to_string (JStr s) = s"
| "to_string (JArr xs) = join '','' (map (\<lambda>x. if nullish x then [] else to_string x) xs)"
| "to_string (JObj kvs) = ''[object Object]''"

text \<open>\<open>String.prototype.split\<close> with a separator of one character: the pieces between
  the occurrences of the separator, of which there is always at least one.\<close>

fun split :: "char \<Rightarrow> string \<Rightarrow> string list" where
  "split sep [] = [[]]"
| "split sep (c # cs) =
     (if c = sep then [] # split sep cs
      else (case split sep cs of [] \<Rightarrow> [[c]] | w # ws \<Rightarrow> (c # w) # ws))"

text \<open>\<open>String.prototype.replace\<close> with a string pattern: the first occurrence of the
  pattern is replaced, and the rest of the string is kept. (The replacement strings of
  the code under study contain no \<open>$\<close>.)\<close>

fun replace :: "string \<Rightarrow> string \<Rightarrow> string \<Rightarrow> string" where
  "replace pat rep [] = (if pat = [] then rep else [])"
| "replace pat rep (c # cs) =
     (if prefix pat (c # cs) then rep @ drop (length pat) (c # cs)
      else c # replace pat rep cs)"

subsection \<open>Property access\<close>

text \<open>A property key is an array index when it is the decimal numeral of a natural
  number, without leading zeros.\<close>

definition is_digit :: "char \<Rightarrow> bool" where
  "is_digit c = (c \<in> set ''0123456789'')"

fun nat_of_digits :: "nat \<Rightarrow> string \<Rightarrow> nat" where
  "nat_of_digits acc [] = acc"
| "nat_of_digits acc (c # cs) =
     nat_of_digits (10 * acc + (of_char c - 48)) cs"

definition index_of :: "string \<Rightarrow> nat option" where
  "index_of k =
     (if k \<noteq> [] \<and> list_all is_digit k \<and> (length k = 1 \<or> hd k \<noteq> CHR ''0'')
      then Some (nat_of_digits 0 k) else None)"

text \<open>\<open>object[key]\<close> on a value that is neither \<open>undefined\<close> nor \<open>null\<close>: an own
  property of an object, an element or the length of an array or of a string, and
  \<open>undefined\<close> for everything else.\<close>

fun getprop :: "jsval \<Rightarrow> string \<Rightarrow> jsval" where
  "getprop (JObj kvs) k = (case map_of kvs k of Some v \<Rightarrow> v | None \<Rightarrow> Undefined)"
| "getprop (JArr xs) k =
     (if k = ''length'' then JNum (int (length xs))
      else case index_of k of
             Some i \<Rightarrow> (if i < length xs then xs ! i else Undefined)
           | None \<Rightarrow> Undefined)"
| "getprop (JStr s) k =
     (if k = ''length'' then JNum (int (length s))
      else case index_of k of
             Some i \<Rightarrow> (if i < length s then JStr [s ! i] else Undefined)
           | None \<Rightarrow> Undefined)"
| "getprop v k = Undefined"

text \<open>\<open>key in Object(object)\<close>, for the same values.\<close>

fun hasprop :: "jsval \<Rightarrow> string \<Rightarrow> bool" where
  "hasprop (JObj kvs) k = (k \<in> fst ` set kvs)"
| "hasprop (JArr xs) k =
     (k = ''length'' \<or> (case index_of k of Some i \<Rightarrow> i < length xs | None \<Rightarrow> False))"
| "hasprop (JStr s) k =
     (k = ''length'' \<or> (case index_of k of Some i \<Rightarrow> i < length s | None \<Rightarrow> False))"
| "hasprop v k = False"

text \<open>The member expression \<open>object.key\<close>: reading a property of \<open>undefined\<close> or
  \<open>null\<close> throws a \<open>TypeError\<close>.\<close>

definition member :: "jsval \<Rightarrow> string \<Rightarrow> error + jsval" where
  "member object k = (if nullish object then Inl TypeError else Inr (getprop object k))"

subsection \<open>lodash \<open>get\<close>\<close>

text \<open>
  \<open>get(object, path, defaultValue)\<close> of lodash. A string path without a dot is one key;
  a path with dots is one key when the object has a property of exactly that name, and
  otherwise the list of the pieces between its dots (\<open>castPath\<close>, \<open>isKey\<close> and
  \<open>stringToPath\<close>). The paths of the selectors are built from property names and
  from the names of chains and networks; the bracket notation \<open>a[0]\<close> of paths does
  not occur in them and is not modelled. \<open>baseGet\<close> follows the keys while the value at hand is neither
  \<open>undefined\<close> nor \<open>null\<close>, and yields \<open>undefined\<close> when it stops before the end of the
  path. \<open>get\<close> never throws, and replaces an \<open>undefined\<close> result, and only that, by
  the default.
\<close>

definition castPath :: "string \<Rightarrow> jsval \<Rightarrow> string list" where
  "castPath p object =
     (if CHR ''.'' \<in> set p then (if hasprop object p then [p] else split CHR ''.'' p)
      else [p])"

fun walk :: "jsval \<Rightarrow> string list \<Rightarrow> jsval" where
  "walk object [] = object"
| "walk object (k # ks) = (if nullish object then Undefined else walk (getprop object k) ks)"

definition baseGet :: "jsval \<Rightarrow> string \<Rightarrow> jsval" where
  "baseGet object p =
     (let path = castPath p object in if path = [] then Undefined else walk object path)"

definition get :: "jsval \<Rightarrow> string \<Rightarrow> jsval \<Rightarrow> jsval" where
  "get object p defaultValue =
     (let result = (if nullish object then Undefined else baseGet object p)
      in if result = Undefined then defaultValue else result)"

section \<open>reselect selectors\<close>

text \<open>
  A selector is either a plain function of the state, or \<open>createSelector(d1, ..., dn, f)\<close>:
  the dependencies are evaluated on the state from left to right, and the result
  function is applied to their results. An exception of a dependency or of the result
  function is the exception of the selector.
\<close>

datatype selector =
    Plain "jsval \<Rightarrow> error + jsval"
  | Created "selector list" "jsval list \<Rightarrow> error + jsval"

fun select :: "selector \<Rightarrow> jsval \<Rightarrow> error + jsval" where
  "select (Plain f) state = f state"
| "select (Created deps f) state =
     bindE (collect (map (\<lambda>d. select d state) deps)) f"

definition createSelector1 :: "selector \<Rightarrow> (jsval \<Rightarrow> error + jsval) \<Rightarrow> selector" where
  "createSelector1 d1 f = Created [d1] (\<lambda>args. f (args ! 0))"

definition createSelector2 ::
  "selector \<Rightarrow> selector \<Rightarrow> (jsval \<Rightarrow> jsval \<Rightarrow> error + jsval) \<Rightarrow> selector" where
  "createSelector2 d1 d2 f = Created [d1, d2] (\<lambda>args. f (args ! 0) (args ! 1))"

definition createSelector4 ::
  "selector \<Rightarrow> selector \<Rightarrow> selector \<Rightarrow> selector \<Rightarrow>
   (jsval \<Rightarrow> jsval \<Rightarrow> jsval \<Rightarrow> jsval \<Rightarrow> error + jsval) \<Rightarrow> selector" where
  "createSelector4 d1 d2 d3 d4 f =
     Created [d1, d2, d3, d4] (\<lambda>args. f (args ! 0) (args ! 1) (args ! 2) (args ! 3))"

section \<open>The info selectors (\<open>reducers/info/selectors.js\<close>)\<close>

definition chainSelector :: "jsval \<Rightarrow> error + jsval" where
  "chainSelector state = bindE (member state ''info'') (\<lambda>info. member info ''chain'')"

definition chainsSelector :: "jsval \<Rightarrow> error + jsval" where
  "chainsSelector state = bindE (member state ''info'') (\<lambda>info. member info ''chains'')"

definition networkSelector :: "jsval \<Rightarrow> error + jsval" where
  "networkSelector state = bindE (member state ''info'') (\<lambda>info. member info ''network'')"

definition networksSelector :: "jsval \<Rightarrow> error + jsval" where
  "networksSelector state = bindE (member state ''info'') (\<lambda>info. member info ''networks'')"

definition infoLoading :: "jsval \<Rightarrow> error + jsval" where
  "infoLoading state = bindE (member state ''info'') (\<lambda>info. member info ''infoLoading'')"

definition infoLoaded :: "jsval \<Rightarrow> error + jsval" where
  "infoLoaded state = bindE (member state ''info'') (\<lambda>info. member info ''infoLoaded'')"

definition hasSynced :: "jsval \<Rightarrow> error + jsval" where
  "hasSynced state = bindE (member state ''info'') (\<lambda>info. member info ''hasSynced'')"

definition isSyncedToChain :: "jsval \<Rightarrow> error + jsval" where
  "isSyncedToChain state = Inr (get state ''info.data.syncedToChain'' (JBool False))"

definition version :: "jsval \<Rightarrow> error + jsval" where
  "version state = Inr (get state ''info.data.version'' Undefined)"

definition identityPubkey :: "jsval \<Rightarrow> error + jsval" where
  "identityPubkey state = Inr (get state ''info.data.identity_pubkey'' Undefined)"

definition nodeUris :: "jsval \<Rightarrow> error + jsval" where
  "nodeUris state = Inr (get state ''info.data.uris'' Undefined)"

definition grpcProtoVersion :: "jsval \<Rightarrow> error + jsval" where
  "grpcProtoVersion state = Inr (get state ''info.data.grpcProtoVersion'' Undefined)"

text \<open>A method call \<open>v.split(sep)\<close> on a value that is not \<open>undefined\<close> or \<open>null\<close>:
  only a string has the method; on any other value of a state the property \<open>split\<close> is
  not a function, and calling it throws a \<open>TypeError\<close>.\<close>

fun call_split :: "jsval \<Rightarrow> char \<Rightarrow> error + jsval" where
  "call_split (JStr s) sep = Inr (JArr (map JStr (split sep s)))"
| "call_split v sep = Inl TypeError"

fun call_replace :: "jsval \<Rightarrow> string \<Rightarrow> string \<Rightarrow> error + jsval" where
  "call_replace (JStr s) pat rep = Inr (JStr (replace pat rep s))"
| "call_replace v pat rep = Inl TypeError"

definition versionString :: selector where
  "versionString =
     createSelector1 (Plain version)
       (\<lambda>v. js_and v (bindE (call_split v CHR '' '') (\<lambda>parts. member parts ''0'')))"

definition commitString :: selector where
  "commitString =
     createSelector1 (Plain version)
       (\<lambda>v. if \<not> truthy v then Inr Undefined
            else bindE (bindE (call_split v CHR '' '') (\<lambda>parts. member parts ''1''))
                   (\<lambda>c. if truthy c then call_replace c ''commit='' '''' else Inr Undefined))"

text \<open>
  \<open>semver.gte(v, threshold, { includePrerelease: true })\<close> belongs to the \<open>semver\<close>
  package. It is a parameter \<open>gte\<close> of the selectors that call it: it yields a boolean,
  or throws for a version that it cannot parse.
\<close>

definition hasRouterSupport :: "(jsval \<Rightarrow> string \<Rightarrow> error + bool) \<Rightarrow> selector" where
  "hasRouterSupport gte =
     createSelector1 (Plain grpcProtoVersion)
       (\<lambda>v. if \<not> truthy v then Inr (JBool False)
            else bindE (gte v ''0.7.1-beta'') (\<lambda>b. Inr (JBool b)))"

definition hasSendPaymentV2Support :: "(jsval \<Rightarrow> string \<Rightarrow> error + bool) \<Rightarrow> selector" where
  "hasSendPaymentV2Support gte =
     createSelector1 (Plain grpcProtoVersion)
       (\<lambda>v. if \<not> truthy v then Inr (JBool False)
            else bindE (gte v ''0.10.0-beta'') (\<lambda>b. Inr (JBool b)))"

definition hasMppSupport :: "(jsval \<Rightarrow> string \<Rightarrow> error + bool) \<Rightarrow> selector" where
  "hasMppSupport gte =
     createSelector1 (Plain grpcProtoVersion)
       (\<lambda>v. if \<not> truthy v then Inr (JBool False)
            else bindE (gte v ''0.10.0-beta'') (\<lambda>b. Inr (JBool b)))"

definition nodePubkey :: selector where
  "nodePubkey =
     createSelector2 (Plain nodeUris) (Plain identityPubkey)
       (\<lambda>n pk.
          let parseFromDataUri =
                js_and n
                  (bindE (bindE (member n ''0'') (\<lambda>uri. call_split uri CHR ''@''))
                     (\<lambda>parts. member parts ''0''))
          in js_or pk parseFromDataUri)"

definition nodeUrisOrPubkey :: selector where
  "nodeUrisOrPubkey =
     createSelector2 (Plain nodeUris) nodePubkey (\<lambda>uris pk. js_or uris (Inr (JArr [pk])))"

text \<open>The object spread \<open>{ ...info, explorerUrl: url }\<close>: the own properties of \<open>info\<close>
  (the elements of an array or the characters of a string under their indices, nothing
  for any other value), and then the property \<open>explorerUrl\<close>, which replaces a property
  of that name in its place or is added last.\<close>

fun spread :: "jsval \<Rightarrow> (string \<times> jsval) list" where
  "spread (JObj kvs) = kvs"
| "spread (JArr xs) = zip (map show_nat [0..<length xs]) xs"
| "spread (JStr s) = zip (map show_nat [0..<length s]) (map (\<lambda>c. JStr [c]) s)"
| "spread v = []"

fun set_prop :: "(string \<times> jsval) list \<Rightarrow> string \<Rightarrow> jsval \<Rightarrow> (string \<times> jsval) list" where
  "set_prop [] k v = [(k, v)]"
| "set_prop ((k', v') # kvs) k v =
     (if k' = k then (k, v) # kvs else (k', v') # set_prop kvs k v)"

text \<open>\<open>settingsSelectors.currentConfig\<close> belongs to \<open>reducers/settings\<close>; it is a
  parameter of \<open>networkInfo\<close>.\<close>

definition networkInfo :: "selector \<Rightarrow> selector" where
  "networkInfo settings_currentConfig =
     createSelector4 (Plain chainSelector) (Plain networkSelector) (Plain networksSelector)
       settings_currentConfig
       (\<lambda>chain network networks currentConfig.
          let info = get networks (to_string chain @ ''.'' @ to_string network) (JObj [])
          in bindE (member info ''explorerUrls'') (\<lambda>explorerUrls.
             bindE (member currentConfig ''blockExplorer'') (\<lambda>blockExplorer.
             bindE (member explorerUrls (to_string blockExplorer)) (\<lambda>explorerUrl.
               Inr (JObj (set_prop (spread info) ''explorerUrl'' explorerUrl))))))"

definition chainName :: selector where
  "chainName =
     createSelector2 (Plain chainSelector) (Plain chainsSelector)
       (\<lambda>chain chains. Inr (get chains (to_string chain @ ''.name'') Null))"

section \<open>The invoice selectors (\<open>reducers/invoice/selectors.js\<close>)\<close>

definition invoicesSelector :: "jsval \<Rightarrow> error + jsval" where
  "invoicesSelector state =
     bindE (member state ''invoice'') (\<lambda>invoice. member invoice ''invoices'')"

definition invoiceSelector :: "jsval \<Rightarrow> error + jsval" where
  "invoiceSelector state =
     bindE (member state ''invoice'') (\<lambda>invoice. member invoice ''invoice'')"

text \<open>\<open>item.map(f)\<close> and \<open>item.find(p)\<close>: only an array has these methods. The callback
  is applied to the elements in order, and its first exception ends the call; \<open>find\<close>
  stops at the first element that satisfies the predicate and yields \<open>undefined\<close> when
  there is none.\<close>

fun call_map :: "jsval \<Rightarrow> (jsval \<Rightarrow> error + jsval) \<Rightarrow> error + jsval" where
  "call_map (JArr xs) f = bindE (collect (map f xs)) (\<lambda>ys. Inr (JArr ys))"
| "call_map v f = Inl TypeError"

fun find_first :: "(jsval \<Rightarrow> error + bool) \<Rightarrow> jsval list \<Rightarrow> error + jsval" where
  "find_first p [] = Inr Undefined"
| "find_first p (x # xs) = bindE (p x) (\<lambda>b. if b then Inr x else find_first p xs)"

fun call_find :: "jsval \<Rightarrow> (jsval \<Rightarrow> error + bool) \<Rightarrow> error + jsval" where
  "call_find (JArr xs) p = find_first p xs"
| "call_find v p = Inl TypeError"

text \<open>Strict equality \<open>===\<close>: equality of the values for \<open>undefined\<close>, \<open>null\<close>, booleans,
  numbers other than \<open>NaN\<close> and strings. Arrays and objects are compared by identity,
  which a value does not carry: two of them count as different objects. The selectors
  compare with the selected payment request, which is a string or \<open>null\<close>.\<close>

fun strict_eq :: "jsval \<Rightarrow> jsval \<Rightarrow> bool" where
  "strict_eq Undefined Undefined = True"
| "strict_eq Null Null = True"
| "strict_eq (JBool a) (JBool b) = (a = b)"
| "strict_eq (JNum a) (JNum b) = (a = b)"
| "strict_eq (JStr a) (JStr b) = (a = b)"
| "strict_eq a b = False"

text \<open>\<open>decorateInvoice\<close> belongs to \<open>reducers/invoice/utils\<close>; it is a parameter of the
  selectors, a function of the invoice it is given that may throw.\<close>

definition invoices :: "(jsval \<Rightarrow> error + jsval) \<Rightarrow> selector" where
  "invoices decorateInvoice =
     createSelector1 (Plain invoicesSelector) (\<lambda>item. call_map item decorateInvoice)"

definition invoice :: "(jsval \<Rightarrow> error + jsval) \<Rightarrow> selector" where
  "invoice decorateInvoice =
     createSelector2 (invoices decorateInvoice) (Plain invoiceSelector)
       (\<lambda>allInvoices paymentRequest.
          call_find allInvoices
            (\<lambda>item. bindE (member item ''paymentRequest'')
                      (\<lambda>p. Inr (strict_eq p paymentRequest))))"

section \<open>The amount shown by \<open>RequestSummary\<close> (\<open>components/Request/RequestSummary.js\<close>)\<close>

text \<open>
  The component receives the props \<open>invoice\<close> (with the default \<open>{}\<close>, which stands in for
  \<open>undefined\<close> only) and \<open>payReq\<close>. Before it computes \<open>satoshis\<close> it decodes the payment
  request (\<open>decodePayReq\<close> belongs to \<open>@zap/utils/crypto\<close> and is a parameter), reads
  \<open>decodedInvoice.timeExpireDate\<close> for the initial expiry delta, and destructures
  \<open>decodedInvoice\<close>; each of these steps may throw.
\<close>

definition default_param :: "jsval \<Rightarrow> jsval \<Rightarrow> jsval" where
  "default_param v d = (if v = Undefined then d else v)"

definition RequestSummary_satoshis ::
  "(jsval \<Rightarrow> error + jsval) \<Rightarrow> jsval \<Rightarrow> jsval \<Rightarrow> error + jsval" where
  "RequestSummary_satoshis decodePayReq invoice_prop payReq =
     (let invoice = default_param invoice_prop (JObj [])
      in bindE (if truthy payReq then decodePayReq payReq else Inr (JObj [])) (\<lambda>decodedInvoice.
         bindE (member decodedInvoice ''timeExpireDate'') (\<lambda>timeExpireDate.
         bindE (member decodedInvoice ''satoshis'') (\<lambda>invoiceAmount.
         bindE (member invoice ''finalAmount'') (\<lambda>finalAmount.
           js_or finalAmount (js_or invoiceAmount (Inr (JNum 0))))))))"

section \<open>Memoisation by reselect\<close>

text \<open>
  \<open>createSelector\<close> memoises twice with \<open>defaultMemoize\<close>, which keeps the last
  arguments and the last result of a function and returns the kept result when it is
  called again with arguments that are \<open>===\<close> to the kept ones, one by one. The
  selector itself is memoised on its arguments (the state), and the result function on
  the results of the dependencies. A call that throws leaves the kept arguments and
  result as they were. A cache holds what the two memoised functions keep, and the
  caches of the dependencies; a plain function has nothing to keep.

  The relation \<open>same\<close> stands for \<open>===\<close> on the values handed around: on objects it
  is identity, which the value of a snapshot does not determine, so it is a parameter.
\<close>

datatype cache =
  Cache "(jsval list \<times> jsval) option" "(jsval list \<times> jsval) option" "cache list"

definition empty_cache :: cache where
  "empty_cache = Cache None None []"

fun hd_cache :: "cache list \<Rightarrow> cache" where
  "hd_cache [] = empty_cache"
| "hd_cache (c # cs) = c"

definition memo_hit ::
  "(jsval \<Rightarrow> jsval \<Rightarrow> bool) \<Rightarrow> (jsval list \<times> jsval) option \<Rightarrow> jsval list \<Rightarrow> jsval option" where
  "memo_hit same kept args =
     (case kept of
        None \<Rightarrow> None
      | Some (lastArgs, lastResult) \<Rightarrow>
          if list_all2 same lastArgs args then Some lastResult else None)"

fun run :: "(jsval \<Rightarrow> jsval \<Rightarrow> bool) \<Rightarrow> selector \<Rightarrow> cache \<Rightarrow> jsval \<Rightarrow> (error + jsval) \<times> cache"
  and run_deps ::
    "(jsval \<Rightarrow> jsval \<Rightarrow> bool) \<Rightarrow> selector list \<Rightarrow> cache list \<Rightarrow> jsval
       \<Rightarrow> (error + jsval list) \<times> cache list" where
  "run same (Plain f) c state = (f state, c)"
| "run same (Created deps f) c state =
     (case c of Cache outer inner dcs \<Rightarrow>
        (case memo_hit same outer [state] of
           Some r \<Rightarrow> (Inr r, Cache (Some ([state], r)) inner dcs)
         | None \<Rightarrow>
             (case run_deps same deps dcs state of
                (Inl e, dcs') \<Rightarrow> (Inl e, Cache outer inner dcs')
              | (Inr params, dcs') \<Rightarrow>
                  (case memo_hit same inner params of
                     Some r \<Rightarrow> (Inr r, Cache (Some ([state], r)) (Some (params, r)) dcs')
                   | None \<Rightarrow>
                       (case f params of
                          Inl e \<Rightarrow> (Inl e, Cache outer inner dcs')
                        | Inr r \<Rightarrow>
                            (Inr r, Cache (Some ([state], r)) (Some (params, r)) dcs'))))))"
| "run_deps same [] cs state = (Inr [], cs)"
| "run_deps same (d # ds) cs state =
     (case run same d (hd_cache cs) state of
        (Inl e, c') \<Rightarrow> (Inl e, c' # tl cs)
      | (Inr v, c') \<Rightarrow>
          (case run_deps same ds (tl cs) state of
             (r, cs') \<Rightarrow> (bindE r (\<lambda>vs. Inr (v # vs)), c' # cs')))"

text \<open>The cache after the selector has been called on each state of a list in turn.\<close>

fun run_all :: "(jsval \<Rightarrow> jsval \<Rightarrow> bool) \<Rightarrow> selector \<Rightarrow> cache \<Rightarrow> jsval list \<Rightarrow> cache" where
  "run_all same sel c [] = c"
| "run_all same sel c (state # states) = run_all same sel (snd (run same sel c state)) states"

text \<open>A cache is consistent with a selector when whatever it keeps is what the selector,
  or its result function, yields on the kept arguments.\<close>

fun cache_ok :: "selector \<Rightarrow> cache \<Rightarrow> bool"
  and caches_ok :: "selector list \<Rightarrow> cache list \<Rightarrow> bool" where
  "cache_ok (Plain f) c = True"
| "cache_ok (Created deps f) c =
     (case c of Cache outer inner dcs \<Rightarrow>
        (case outer of
           None \<Rightarrow> True
         | Some (args, r) \<Rightarrow>
             (case args of [s] \<Rightarrow> select (Created deps f) s = Inr r | _ \<Rightarrow> False))
        \<and> (case inner of None \<Rightarrow> True | Some (params, r) \<Rightarrow> f params = Inr r)
        \<and> caches_ok deps dcs)"
| "caches_ok [] cs = True"
| "caches_ok (d # ds) cs = (cache_ok d (hd_cache cs) \<and> caches_ok ds (tl cs))"

section \<open>The version strings, as the specification words them\<close>

text \<open>
  The specification describes \<open>versionString\<close> and \<open>commitString\<close> through the
  whitespace-separated tokens of the version: the maximal runs of characters that are
  not whitespace. The first token is the version string; the second token, with a
  leading \<open>commit=\<close> taken off, is the commit string; a token that is missing gives
  \<open>undefined\<close>, and so does a version that is absent.
\<close>

definition is_whitespace :: "char \<Rightarrow> bool" where
  "is_whitespace c = (c \<in> set [CHR '' '', CHR 0x09, CHR 0x0A, CHR 0x0B, CHR 0x0C, CHR 0x0D])"

fun tokens_from :: "string \<Rightarrow> string \<Rightarrow> string list" where
  "tokens_from acc [] = (if acc = [] then [] else [rev acc])"
| "tokens_from acc (c # cs) =
     (if is_whitespace c
      then (if acc = [] then tokens_from [] cs else rev acc # tokens_from [] cs)
      else tokens_from (c # acc) cs)"

definition tokens :: "string \<Rightarrow> string list" where
  "tokens s = tokens_from [] s"

definition strip_prefix :: "string \<Rightarrow> string \<Rightarrow> string" where
  "strip_prefix p s = (if prefix p s then drop (length p) s else s)"

definition spec_versionString :: "jsval \<Rightarrow> jsval" where
  "spec_versionString v =
     (case v of
        JStr s \<Rightarrow> (case tokens s of [] \<Rightarrow> Undefined | t # ts \<Rightarrow> JStr t)
      | _ \<Rightarrow> Undefined)"

definition spec_commitString :: "jsval \<Rightarrow> jsval" where
  "spec_commitString v =
     (case v of
        JStr s \<Rightarrow>
          (case tokens s of
             t # c # ts \<Rightarrow> JStr (strip_prefix ''commit='' c)
           | _ \<Rightarrow> Undefined)
      | _ \<Rightarrow> Undefined)"

text \<open>The code cuts the version at single space characters: the first piece is what
  stands before the first space, the second piece what stands between the first space
  and the second.\<close>

definition first_piece_of :: "string \<Rightarrow> string" where
  "first_piece_of s = takeWhile (\<lambda>c. c \<noteq> CHR '' '') s"

definition second_piece_of :: "string \<Rightarrow> string" where
  "second_piece_of s =
     takeWhile (\<lambda>c. c \<noteq> CHR '' '') (tl (dropWhile (\<lambda>c. c \<noteq> CHR '' '') s))"

section \<open>Example states\<close>

text \<open>A state after the node info has been received, and a state whose node info is
  still empty.\<close>

definition state_loaded :: jsval where
  "state_loaded =
     JObj [(''info'', JObj
       [(''chain'', JStr ''bitcoin''),
        (''network'', JStr ''mainnet''),
        (''networks'', JObj [(''bitcoin'', JObj [(''mainnet'', JObj
           [(''id'', JStr ''mainnet''),
            (''explorerUrls'', JObj [(''blockstream'', JStr ''https://blockstream.info'')])])])]),
        (''chains'', JObj [(''bitcoin'', JObj [(''name'', JStr ''Bitcoin'')])]),
        (''data'', JObj
           [(''version'', JStr ''0.10.0-beta commit=v0.10.0-beta''),
            (''uris'', JArr [JStr ''02abc@1.2.3.4:9735'']),
            (''grpcProtoVersion'', JStr ''0.10.0-beta'')])])]"

definition state_no_data :: jsval where
  "state_no_data = JObj [(''info'', JObj [(''data'', JObj [])])]"

text \<open>A state whose node info names the node by its identity pubkey, and one that
  has neither a pubkey nor a uri.\<close>

definition state_with_pubkey :: jsval where
  "state_with_pubkey =
     JObj [(''info'', JObj [(''data'', JObj
       [(''identity_pubkey'', JStr ''03def''),
        (''uris'', JArr [JStr ''02abc@1.2.3.4:9735''])])])]"

definition state_empty_uris :: jsval where
  "state_empty_uris = JObj [(''info'', JObj [(''data'', JObj [(''uris'', JArr [])])])]"

text \<open>A state whose current network has no entry in the networks map.\<close>

definition state_unknown_network :: jsval where
  "state_unknown_network =
     JObj [(''info'', JObj
       [(''chain'', JStr ''bitcoin''),
        (''network'', JStr ''simnet''),
        (''networks'', JObj [(''bitcoin'', JObj [(''mainnet'', JObj
           [(''id'', JStr ''mainnet''),
            (''explorerUrls'', JObj [(''blockstream'', JStr ''https://blockstream.info'')])])])]),
        (''data'', JObj [])])]"

text \<open>A state with two invoices, the second of which is selected, and a decoration
  that marks a record as an invoice.\<close>

definition invoice_a :: jsval where
  "invoice_a = JObj [(''paymentRequest'', JStr ''lnbc1a''), (''value'', JNum 1000)]"

definition invoice_b :: jsval where
  "invoice_b = JObj [(''paymentRequest'', JStr ''lnbc1b''), (''value'', JNum 2500)]"

definition state_invoices :: jsval where
  "state_invoices =
     JObj [(''invoice'', JObj
       [(''invoices'', JArr [invoice_a, invoice_b]),
        (''invoice'', JStr ''lnbc1b'')])]"

definition mark_invoice :: "jsval \<Rightarrow> jsval" where
  "mark_invoice i = JObj (set_prop (spread i) ''type'' (JStr ''invoice''))"

text \<open>A decoder that finds an amount of 1500 satoshis in every payment request.\<close>

definition decode_1500 :: "jsval \<Rightarrow> error + jsval" where
  "decode_1500 payReq =
     Inr (JObj [(''satoshis'', JNum 1500), (''timeExpireDate'', JNum 1600003600)])"

text \<open>States with a node version of a given text.\<close>

definition state_version :: "string \<Rightarrow> jsval" where
  "state_version v = JObj [(''info'', JObj [(''data'', JObj [(''version'', JStr v)])])]"

text \<open>A comparison that every version passes.\<close>

definition gte_always :: "jsval \<Rightarrow> string \<Rightarrow> error + bool" where
  "gte_always v t = Inr True"

section \<open>Evaluating selectors\<close>

lemma select_createSelector1:
  "select (createSelector1 d1 f) state = bindE (select d1 state) f"
  by (cases "select d1 state") (simp_all add: createSelector1_def)

lemma select_createSelector2:
  "select (createSelector2 d1 d2 f) state =
     bindE (select d1 state) (\<lambda>a. bindE (select d2 state) (\<lambda>b. f a b))"
  by (cases "select d1 state"; cases "select d2 state") (simp_all add: createSelector2_def)

lemma select_createSelector4:
  "select (createSelector4 d1 d2 d3 d4 f) state =
     bindE (select d1 state) (\<lambda>a. bindE (select d2 state) (\<lambda>b.
     bindE (select d3 state) (\<lambda>c. bindE (select d4 state) (\<lambda>d. f a b c d))))"
  by (cases "select d1 state"; cases "select d2 state"; cases "select d3 state";
      cases "select d4 state") (simp_all add: createSelector4_def)

lemma index_of_0: "index_of ''0'' = Some 0"
  by (simp add: index_of_def is_digit_def)

lemma index_of_1: "index_of ''1'' = Some 1"
  by (simp add: index_of_def is_digit_def)

lemma grpcProtoVersion_state_no_data: "grpcProtoVersion state_no_data = Inr Undefined"
  by (simp add: grpcProtoVersion_def state_no_data_def get_def baseGet_def castPath_def)

lemma grpcProtoVersion_state_loaded:
  "grpcProtoVersion state_loaded = Inr (JStr ''0.10.0-beta'')"
  by (simp add: grpcProtoVersion_def state_loaded_def get_def baseGet_def castPath_def)

lemma bindE_JBool_True:
  "bindE r (\<lambda>b. Inr (JBool b)) = Inr (JBool True) \<longleftrightarrow> r = Inr True"
  by (cases r) auto

subsection \<open>The pieces of a split string\<close>

lemma split_not_Nil: "split sep s \<noteq> []"
  by (induction s) (auto split: list.splits)

lemma hd_split: "hd (split sep s) = takeWhile (\<lambda>c. c \<noteq> sep) s"
  by (induction s) (auto split: list.splits simp: split_not_Nil)

lemma split_first: "split sep s ! 0 = takeWhile (\<lambda>c. c \<noteq> sep) s"
  using hd_split [of sep s] split_not_Nil [of sep s] by (simp add: hd_conv_nth)

lemma tl_split:
  "tl (split sep s) =
     (if sep \<in> set s then split sep (tl (dropWhile (\<lambda>c. c \<noteq> sep) s)) else [])"
  by (induction s) (auto split: list.splits simp: split_not_Nil)

lemma length_split_gt1: "1 < length (split sep s) \<longleftrightarrow> sep \<in> set s"
proof -
  have "length (split sep s) = Suc (length (tl (split sep s)))"
    using split_not_Nil [of sep s] by (cases "split sep s") auto
  then show ?thesis by (auto simp: tl_split split_not_Nil)
qed

lemma split_second:
  assumes "sep \<in> set s"
  shows "split sep s ! 1 = takeWhile (\<lambda>c. c \<noteq> sep) (tl (dropWhile (\<lambda>c. c \<noteq> sep) s))"
proof -
  have "split sep s ! 1 = tl (split sep s) ! 0"
    using split_not_Nil [of sep s] by (cases "split sep s") auto
  also have "\<dots> = split sep (tl (dropWhile (\<lambda>c. c \<noteq> sep) s)) ! 0"
    using assms by (simp add: tl_split)
  finally show ?thesis by (simp add: split_first)
qed

lemma getprop_split_0:
  "getprop (JArr (map JStr (split sep s))) ''0'' = JStr (takeWhile (\<lambda>c. c \<noteq> sep) s)"
  using split_not_Nil [of sep s] split_first [of sep s] by (simp add: index_of_0)

lemma getprop_split_1:
  "getprop (JArr (map JStr (split sep s))) ''1'' =
     (if sep \<in> set s
      then JStr (takeWhile (\<lambda>c. c \<noteq> sep) (tl (dropWhile (\<lambda>c. c \<noteq> sep) s)))
      else Undefined)"
  using length_split_gt1 [of sep s] split_second [of sep s] by (simp add: index_of_1)

lemma first_piece:
  "bindE (call_split (JStr s) sep) (\<lambda>parts. member parts ''0'') =
     Inr (JStr (takeWhile (\<lambda>c. c \<noteq> sep) s))"
  by (simp add: member_def getprop_split_0 del: getprop.simps)

subsection \<open>Callbacks over arrays\<close>

lemma collect_map_Inr:
  "collect (map f xs) = Inr ys \<longleftrightarrow>
     length ys = length xs \<and> (\<forall>i<length xs. f (xs ! i) = Inr (ys ! i))"
proof (induction xs arbitrary: ys)
  case Nil
  then show ?case by auto
next
  case (Cons x xs)
  show ?case
  proof (cases "f x")
    case (Inl e)
    then show ?thesis by auto
  next
    case (Inr y)
    show ?thesis
    proof (cases "collect (map f xs)")
      case (Inl e)
      with Cons.IH [of "tl ys"] Inr show ?thesis
        by (cases ys) auto
    next
      case r: (Inr zs)
      with Cons.IH [of zs] Cons.IH [of "tl ys"] Inr show ?thesis
        by (cases ys) (auto simp: nth_Cons split: nat.splits)
    qed
  qed
qed

lemma collect_map_total:
  "(\<And>x. x \<in> set xs \<Longrightarrow> f x = Inr (g x)) \<Longrightarrow> collect (map f xs) = Inr (map g xs)"
  by (induction xs) auto

lemma strict_eq_string_or_null:
  "pr = Undefined \<or> pr = Null \<or> pr = JStr s \<Longrightarrow> strict_eq p pr \<longleftrightarrow> p = pr"
  by (cases p) auto

lemma find_first_find:
  assumes "\<forall>item\<in>set ds. \<not> nullish item"
  shows "find_first (\<lambda>item. bindE (member item k) (\<lambda>p. Inr (q p))) ds =
           Inr (case List.find (\<lambda>item. q (getprop item k)) ds of
                  Some item \<Rightarrow> item | None \<Rightarrow> Undefined)"
  using assms by (induction ds) (auto simp: member_def)

section \<open>Capability flags\<close>

text \<open>
  Claim C2. When \<open>grpcProtoVersion\<close> is present (truthy: in particular a string that is
  not empty), each capability flag is the result of the semver comparison \<open>gte\<close> of that
  version with the flag's threshold: \<open>0.7.1-beta\<close> for \<open>hasRouterSupport\<close>, and
  \<open>0.10.0-beta\<close> for \<open>hasSendPaymentV2Support\<close> and \<open>hasMppSupport\<close>. The flag is
  \<open>true\<close> exactly when the comparison yields true, and an exception of the comparison
  is the exception of the selector.
\<close>

theorem capability_flags_semver:
  assumes "grpcProtoVersion state = Inr v" and "truthy v"
  shows "select (hasRouterSupport gte) state =
           bindE (gte v ''0.7.1-beta'') (\<lambda>b. Inr (JBool b))
       \<and> select (hasSendPaymentV2Support gte) state =
           bindE (gte v ''0.10.0-beta'') (\<lambda>b. Inr (JBool b))
       \<and> select (hasMppSupport gte) state =
           bindE (gte v ''0.10.0-beta'') (\<lambda>b. Inr (JBool b))
       \<and> (select (hasRouterSupport gte) state = Inr (JBool True)
            \<longleftrightarrow> gte v ''0.7.1-beta'' = Inr True)
       \<and> (select (hasSendPaymentV2Support gte) state = Inr (JBool True)
            \<longleftrightarrow> gte v ''0.10.0-beta'' = Inr True)
       \<and> (select (hasMppSupport gte) state = Inr (JBool True)
            \<longleftrightarrow> gte v ''0.10.0-beta'' = Inr True)"
  using assms
  by (simp add: hasRouterSupport_def hasSendPaymentV2Support_def hasMppSupport_def
      select_createSelector1 bindE_JBool_True)

text \<open>On the loaded state, with a comparison that accepts the router threshold only.\<close>

theorem capability_flags_semver_witness:
  "grpcProtoVersion state_loaded = Inr (JStr ''0.10.0-beta'') \<and> truthy (JStr ''0.10.0-beta'')
   \<and> select (hasRouterSupport (\<lambda>v t. Inr (t = ''0.7.1-beta''))) state_loaded = Inr (JBool True)
   \<and> select (hasMppSupport (\<lambda>v t. Inr (t = ''0.7.1-beta''))) state_loaded = Inr (JBool False)"
proof -
  have t: "truthy (JStr ''0.10.0-beta'')" by simp
  from capability_flags_semver [OF grpcProtoVersion_state_loaded t,
      of "\<lambda>v t. Inr (t = ''0.7.1-beta'')"]
  show ?thesis using grpcProtoVersion_state_loaded by simp
qed

text \<open>
  Claim C3. When \<open>grpcProtoVersion\<close> is absent (\<open>undefined\<close>, \<open>null\<close> or the empty
  string), \<open>hasRouterSupport\<close> returns \<open>false\<close>, whatever the comparison would say.
\<close>

theorem hasRouterSupport_absent:
  assumes "grpcProtoVersion state = Inr v"
    and "v = Undefined \<or> v = Null \<or> v = JStr []"
  shows "select (hasRouterSupport gte) state = Inr (JBool False)"
  using assms by (auto simp: hasRouterSupport_def select_createSelector1)

theorem hasRouterSupport_absent_witness:
  "grpcProtoVersion state_no_data = Inr Undefined \<and>
   select (hasRouterSupport (\<lambda>v t. Inr True)) state_no_data = Inr (JBool False)"
proof -
  note g = grpcProtoVersion_state_no_data
  from hasRouterSupport_absent [OF g] g show ?thesis by simp
qed

text \<open>
  Claim C8. \<open>hasMppSupport\<close> and \<open>hasSendPaymentV2Support\<close> are the same selector: on
  every state they return the same value, which is \<open>false\<close> when \<open>grpcProtoVersion\<close>
  is falsy and the comparison of the version with \<open>0.10.0-beta\<close> otherwise.
\<close>

theorem hasMppSupport_eq_hasSendPaymentV2Support:
  assumes "grpcProtoVersion state = Inr v"
  shows "hasMppSupport gte = hasSendPaymentV2Support gte
       \<and> select (hasMppSupport gte) state = select (hasSendPaymentV2Support gte) state
       \<and> select (hasMppSupport gte) state =
           (if truthy v then bindE (gte v ''0.10.0-beta'') (\<lambda>b. Inr (JBool b))
            else Inr (JBool False))"
proof -
  have same: "hasMppSupport gte = hasSendPaymentV2Support gte"
    by (simp add: hasMppSupport_def hasSendPaymentV2Support_def)
  have "select (hasMppSupport gte) state =
          (if truthy v then bindE (gte v ''0.10.0-beta'') (\<lambda>b. Inr (JBool b))
           else Inr (JBool False))"
    using assms by (simp add: hasMppSupport_def select_createSelector1)
  with same show ?thesis by simp
qed

theorem hasMppSupport_eq_hasSendPaymentV2Support_witness:
  "grpcProtoVersion state_no_data = Inr Undefined
   \<and> select (hasMppSupport (\<lambda>v t. Inr True)) state_no_data =
       select (hasSendPaymentV2Support (\<lambda>v t. Inr True)) state_no_data
   \<and> select (hasMppSupport (\<lambda>v t. Inr True)) state_no_data = Inr (JBool False)"
proof -
  note g = grpcProtoVersion_state_no_data
  from hasMppSupport_eq_hasSendPaymentV2Support [OF g, of "\<lambda>v t. Inr True"] g
  show ?thesis by auto
qed

section \<open>The node pubkey\<close>

text \<open>
  What \<open>nodePubkey\<close> does where it returns: a truthy identity pubkey is returned
  unchanged; without one, node uris that are falsy (absent) are returned as they are,
  and a list with a first uri gives the part of that uri before its first \<open>@\<close> (the
  whole uri when it has none).
\<close>

lemma nodePubkey_resolution:
  assumes "identityPubkey state = Inr pk" and "nodeUris state = Inr n"
  shows "(truthy pk \<longrightarrow> select nodePubkey state = Inr pk)
       \<and> (\<not> truthy pk \<and> \<not> truthy n \<longrightarrow> select nodePubkey state = Inr n)
       \<and> (\<not> truthy pk \<and> n = JArr (JStr uri # uris) \<longrightarrow>
            select nodePubkey state = Inr (JStr (takeWhile (\<lambda>c. c \<noteq> CHR ''@'') uri)))"
proof (intro conjI impI)
  assume "truthy pk"
  with assms show "select nodePubkey state = Inr pk"
    by (simp add: nodePubkey_def select_createSelector2 js_or_def)
next
  assume "\<not> truthy pk \<and> \<not> truthy n"
  with assms show "select nodePubkey state = Inr n"
    by (simp add: nodePubkey_def select_createSelector2 js_or_def js_and_def)
next
  assume a: "\<not> truthy pk \<and> n = JArr (JStr uri # uris)"
  then have first: "member n ''0'' = Inr (JStr uri)"
    by (simp add: member_def index_of_0)
  from a assms have "select nodePubkey state =
      bindE (bindE (member n ''0'') (\<lambda>uri. call_split uri CHR ''@''))
        (\<lambda>parts. member parts ''0'')"
    by (simp add: nodePubkey_def select_createSelector2 js_or_def js_and_def)
  also have "\<dots> = bindE (call_split (JStr uri) CHR ''@'') (\<lambda>parts. member parts ''0'')"
    by (simp only: first bindE.simps)
  finally show "select nodePubkey state = Inr (JStr (takeWhile (\<lambda>c. c \<noteq> CHR ''@'') uri))"
    by (simp only: first_piece)
qed

lemma identityPubkey_state_empty_uris: "identityPubkey state_empty_uris = Inr Undefined"
  by (simp add: identityPubkey_def state_empty_uris_def get_def baseGet_def castPath_def)

lemma nodeUris_state_empty_uris: "nodeUris state_empty_uris = Inr (JArr [])"
  by (simp add: nodeUris_def state_empty_uris_def get_def baseGet_def castPath_def)

text \<open>With a pubkey the uris are not looked at; without one the first uri is cut at
  its \<open>@\<close>; with neither a pubkey nor uris the result is \<open>undefined\<close>.\<close>

lemma nodePubkey_resolution_examples:
  "select nodePubkey state_with_pubkey = Inr (JStr ''03def'')
   \<and> select nodePubkey state_loaded = Inr (JStr ''02abc'')
   \<and> select nodePubkey state_no_data = Inr Undefined"
proof -
  have p1: "identityPubkey state_with_pubkey = Inr (JStr ''03def'')"
    by (simp add: identityPubkey_def state_with_pubkey_def get_def baseGet_def castPath_def)
  have n1: "nodeUris state_with_pubkey = Inr (JArr [JStr ''02abc@1.2.3.4:9735''])"
    by (simp add: nodeUris_def state_with_pubkey_def get_def baseGet_def castPath_def)
  have p2: "identityPubkey state_loaded = Inr Undefined"
    by (simp add: identityPubkey_def state_loaded_def get_def baseGet_def castPath_def)
  have n2: "nodeUris state_loaded = Inr (JArr [JStr ''02abc@1.2.3.4:9735''])"
    by (simp add: nodeUris_def state_loaded_def get_def baseGet_def castPath_def)
  have p3: "identityPubkey state_no_data = Inr Undefined"
    by (simp add: identityPubkey_def state_no_data_def get_def baseGet_def castPath_def)
  have n3: "nodeUris state_no_data = Inr Undefined"
    by (simp add: nodeUris_def state_no_data_def get_def baseGet_def castPath_def)
  from nodePubkey_resolution [OF p1 n1]
  have r1: "select nodePubkey state_with_pubkey = Inr (JStr ''03def'')" by simp
  from nodePubkey_resolution [OF p2 n2, of "''02abc@1.2.3.4:9735''" "[]"]
  have r2: "select nodePubkey state_loaded = Inr (JStr ''02abc'')" by simp
  from nodePubkey_resolution [OF p3 n3]
  have r3: "select nodePubkey state_no_data = Inr Undefined" by simp
  from r1 r2 r3 show ?thesis by simp
qed

text \<open>
  Claim C4 says that without an identity pubkey, and with the node uris list set,
  \<open>nodePubkey\<close> returns the part of the first uri before its first \<open>@\<close>. On a state
  with no identity pubkey whose uris list is set and empty, the condition of the claim
  holds (the empty list is truthy, so the guard \<open>n &&\<close> lets it pass) and the
  selector returns nothing: its first element is \<open>undefined\<close>, and calling \<open>split\<close>
  on it throws.
\<close>

theorem nodePubkey_empty_uris_throws:
  "identityPubkey state_empty_uris = Inr Undefined
   \<and> \<not> truthy Undefined
   \<and> nodeUris state_empty_uris = Inr (JArr [])
   \<and> truthy (JArr [])
   \<and> member (JArr []) ''0'' = Inr Undefined
   \<and> call_split Undefined CHR ''@'' = Inl TypeError
   \<and> select nodePubkey state_empty_uris = Inl TypeError"
proof -
  note pk = identityPubkey_state_empty_uris and n = nodeUris_state_empty_uris
  have first: "member (JArr []) ''0'' = Inr Undefined"
    by (simp add: member_def index_of_0)
  have "select nodePubkey state_empty_uris = Inl TypeError"
    by (simp add: nodePubkey_def select_createSelector2 pk n js_or_def js_and_def first)
  with pk n first show ?thesis by simp
qed

section \<open>The invoice selectors\<close>

lemma invoicesSelector_state_invoices:
  "invoicesSelector state_invoices = Inr (JArr [invoice_a, invoice_b])"
  by (simp add: invoicesSelector_def state_invoices_def member_def)

lemma invoiceSelector_state_invoices:
  "invoiceSelector state_invoices = Inr (JStr ''lnbc1b'')"
  by (simp add: invoiceSelector_def state_invoices_def member_def)

text \<open>
  Claim C7. When the state holds a list of raw invoices, the \<open>invoices\<close> selector
  returns a list \<open>ys\<close> exactly when \<open>ys\<close> has the length of the raw list and its
  \<open>i\<close>-th element is \<open>decorateInvoice\<close> of the \<open>i\<close>-th raw invoice; when
  \<open>decorateInvoice\<close> returns on every raw invoice, the result is the raw list mapped
  through it, in the same order.
\<close>

theorem invoices_elementwise:
  assumes "invoicesSelector state = Inr (JArr xs)"
  shows "(select (invoices decorateInvoice) state = Inr (JArr ys) \<longleftrightarrow>
            length ys = length xs \<and> (\<forall>i<length xs. decorateInvoice (xs ! i) = Inr (ys ! i)))
       \<and> ((\<forall>x\<in>set xs. decorateInvoice x = Inr (d x)) \<longrightarrow>
            select (invoices decorateInvoice) state = Inr (JArr (map d xs)))"
proof -
  have sel: "select (invoices decorateInvoice) state =
               bindE (collect (map decorateInvoice xs)) (\<lambda>ys. Inr (JArr ys))"
    using assms by (simp add: invoices_def select_createSelector1)
  have "select (invoices decorateInvoice) state = Inr (JArr ys) \<longleftrightarrow>
          collect (map decorateInvoice xs) = Inr ys"
    unfolding sel by (cases "collect (map decorateInvoice xs)") auto
  moreover have "select (invoices decorateInvoice) state = Inr (JArr (map d xs))"
    if "\<forall>x\<in>set xs. decorateInvoice x = Inr (d x)"
    unfolding sel using that by (simp add: collect_map_total)
  ultimately show ?thesis by (simp add: collect_map_Inr)
qed

theorem invoices_elementwise_witness:
  "invoicesSelector state_invoices = Inr (JArr [invoice_a, invoice_b])
   \<and> select (invoices (\<lambda>i. Inr (mark_invoice i))) state_invoices =
       Inr (JArr [mark_invoice invoice_a, mark_invoice invoice_b])"
proof -
  note xs = invoicesSelector_state_invoices
  from invoices_elementwise [OF xs, of "\<lambda>i. Inr (mark_invoice i)" _ mark_invoice]
  have "select (invoices (\<lambda>i. Inr (mark_invoice i))) state_invoices =
          Inr (JArr (map mark_invoice [invoice_a, invoice_b]))"
    by simp
  with xs show ?thesis by simp
qed

text \<open>
  Claim C6. When the decorated invoices are records and the selected payment request
  is a string, \<open>null\<close> or \<open>undefined\<close>, the \<open>invoice\<close> selector returns the first decorated invoice
  whose \<open>paymentRequest\<close> equals the selected one, and \<open>undefined\<close> when no decorated
  invoice has that \<open>paymentRequest\<close>.
\<close>

theorem invoice_first_match:
  assumes "select (invoices decorateInvoice) state = Inr (JArr ds)"
    and "invoiceSelector state = Inr pr"
    and "pr = Undefined \<or> pr = Null \<or> pr = JStr s"
    and "\<forall>item\<in>set ds. \<not> nullish item"
  shows "select (invoice decorateInvoice) state =
           Inr (case List.find (\<lambda>item. getprop item ''paymentRequest'' = pr) ds of
                  Some item \<Rightarrow> item | None \<Rightarrow> Undefined)
       \<and> ((\<forall>item\<in>set ds. getprop item ''paymentRequest'' \<noteq> pr) \<longrightarrow>
            select (invoice decorateInvoice) state = Inr Undefined)"
proof -
  have "select (invoice decorateInvoice) state =
          find_first (\<lambda>item. bindE (member item ''paymentRequest'')
                        (\<lambda>p. Inr (strict_eq p pr))) ds"
    using assms(1,2) by (simp add: invoice_def select_createSelector2)
  also have "\<dots> =
      Inr (case List.find (\<lambda>item. strict_eq (getprop item ''paymentRequest'') pr) ds of
             Some item \<Rightarrow> item | None \<Rightarrow> Undefined)"
    using assms(4) by (rule find_first_find)
  also have "(\<lambda>item. strict_eq (getprop item ''paymentRequest'') pr) =
             (\<lambda>item. getprop item ''paymentRequest'' = pr)"
    using strict_eq_string_or_null [OF assms(3)] by auto
  finally have main: "select (invoice decorateInvoice) state =
           Inr (case List.find (\<lambda>item. getprop item ''paymentRequest'' = pr) ds of
                  Some item \<Rightarrow> item | None \<Rightarrow> Undefined)" .
  moreover have "List.find (\<lambda>item. getprop item ''paymentRequest'' = pr) ds = None"
    if "\<forall>item\<in>set ds. getprop item ''paymentRequest'' \<noteq> pr"
    using that by (simp add: find_None_iff)
  ultimately show ?thesis by simp
qed

text \<open>The second invoice of the example state is the selected one.\<close>

theorem invoice_first_match_witness:
  "select (invoices Inr) state_invoices = Inr (JArr [invoice_a, invoice_b])
   \<and> invoiceSelector state_invoices = Inr (JStr ''lnbc1b'')
   \<and> \<not> nullish invoice_a \<and> \<not> nullish invoice_b
   \<and> select (invoice Inr) state_invoices = Inr invoice_b"
proof -
  have ds: "select (invoices Inr) state_invoices = Inr (JArr [invoice_a, invoice_b])"
    by (simp add: invoices_def select_createSelector1 invoicesSelector_state_invoices)
  note pr = invoiceSelector_state_invoices
  have rec: "\<forall>item\<in>set [invoice_a, invoice_b]. \<not> nullish item"
    by (simp add: invoice_a_def invoice_b_def)
  from invoice_first_match [OF ds pr _ rec, of "''lnbc1b''"]
  have "select (invoice Inr) state_invoices = Inr invoice_b"
    by (simp add: invoice_a_def invoice_b_def)
  with ds pr rec show ?thesis by simp
qed

section \<open>The amount shown by the request summary\<close>

text \<open>
  Claim C9. When the payment request decodes to a value that is neither \<open>undefined\<close>
  nor \<open>null\<close>, the amount that \<open>RequestSummary\<close> shows for an \<open>invoice\<close> prop is the
  \<open>finalAmount\<close> of that prop when it is truthy, otherwise the \<open>satoshis\<close> of the
  decoded payment request when that is truthy, otherwise \<open>0\<close>. A \<open>finalAmount\<close> of
  \<open>0\<close> is not shown as it is: the amount is the decoded one, or \<open>0\<close>. When the prop
  is not passed (\<open>undefined\<close>), the default \<open>{}\<close> has no \<open>finalAmount\<close> and the amount
  is the decoded one, or \<open>0\<close>; the default does not stand in for \<open>null\<close>, on which
  reading \<open>invoice.finalAmount\<close> throws.
\<close>

theorem RequestSummary_satoshis_fallback:
  assumes "(if truthy payReq then decodePayReq payReq else Inr (JObj [])) = Inr decodedInvoice"
    and "\<not> nullish decodedInvoice"
    and "invoiceAmount = getprop decodedInvoice ''satoshis''"
  shows "(\<not> nullish invoice_prop \<longrightarrow>
            RequestSummary_satoshis decodePayReq invoice_prop payReq =
              Inr (if truthy (getprop invoice_prop ''finalAmount'')
                   then getprop invoice_prop ''finalAmount''
                   else if truthy invoiceAmount then invoiceAmount
                   else JNum 0))
       \<and> (\<not> nullish invoice_prop \<and> getprop invoice_prop ''finalAmount'' = JNum 0 \<longrightarrow>
            RequestSummary_satoshis decodePayReq invoice_prop payReq =
              Inr (if truthy invoiceAmount then invoiceAmount else JNum 0))
       \<and> RequestSummary_satoshis decodePayReq Undefined payReq =
            Inr (if truthy invoiceAmount then invoiceAmount else JNum 0)
       \<and> RequestSummary_satoshis decodePayReq Null payReq = Inl TypeError"
proof -
  have decoded: "bindE (member decodedInvoice ''timeExpireDate'')
        (\<lambda>timeExpireDate. bindE (member decodedInvoice ''satoshis'') f) = f invoiceAmount"
    for f :: "jsval \<Rightarrow> error + jsval"
    using assms(2,3) by (simp add: member_def)
  have run: "RequestSummary_satoshis decodePayReq invoice_prop payReq =
          bindE (member (default_param invoice_prop (JObj [])) ''finalAmount'')
            (\<lambda>finalAmount. js_or finalAmount (js_or invoiceAmount (Inr (JNum 0))))"
    for invoice_prop
    unfolding RequestSummary_satoshis_def Let_def assms(1) by (simp add: decoded)
  have given: "RequestSummary_satoshis decodePayReq invoice_prop payReq =
          js_or (getprop invoice_prop ''finalAmount'') (js_or invoiceAmount (Inr (JNum 0)))"
    if "\<not> nullish invoice_prop"
    unfolding run using that by (cases invoice_prop) (simp_all add: default_param_def member_def)
  have missing: "RequestSummary_satoshis decodePayReq Undefined payReq =
          js_or invoiceAmount (Inr (JNum 0))"
    unfolding run by (simp add: default_param_def member_def js_or_def)
  have null: "RequestSummary_satoshis decodePayReq Null payReq = Inl TypeError"
    unfolding run by (simp add: default_param_def member_def)
  from given missing null show ?thesis by (auto simp: js_or_def)
qed

text \<open>A settled amount of 2000 satoshis is shown as it is; a settled amount of \<open>0\<close>,
  and an invoice prop that is not passed, give way to the 1500 satoshis of the payment
  request; a \<open>null\<close> prop throws.\<close>

theorem RequestSummary_satoshis_fallback_witness:
  "(if truthy (JStr ''lnbc15u'') then decode_1500 (JStr ''lnbc15u'') else Inr (JObj [])) =
       Inr (JObj [(''satoshis'', JNum 1500), (''timeExpireDate'', JNum 1600003600)])
   \<and> \<not> nullish (JObj [(''satoshis'', JNum 1500), (''timeExpireDate'', JNum 1600003600)])
   \<and> RequestSummary_satoshis decode_1500 (JObj [(''finalAmount'', JNum 2000)]) (JStr ''lnbc15u'') =
       Inr (JNum 2000)
   \<and> RequestSummary_satoshis decode_1500 (JObj [(''finalAmount'', JNum 0)]) (JStr ''lnbc15u'') =
       Inr (JNum 1500)
   \<and> RequestSummary_satoshis decode_1500 Undefined (JStr ''lnbc15u'') = Inr (JNum 1500)
   \<and> RequestSummary_satoshis decode_1500 Null (JStr ''lnbc15u'') = Inl TypeError"
proof -
  have b: "(if truthy (JStr ''lnbc15u'') then decode_1500 (JStr ''lnbc15u'') else Inr (JObj [])) =
       Inr (JObj [(''satoshis'', JNum 1500), (''timeExpireDate'', JNum 1600003600)])"
    by (simp add: decode_1500_def)
  have c: "\<not> nullish (JObj [(''satoshis'', JNum 1500), (''timeExpireDate'', JNum 1600003600)])"
    by simp
  note t = RequestSummary_satoshis_fallback
    [where decodePayReq = decode_1500 and payReq = "JStr ''lnbc15u''", OF b c refl]
  from t [of "JObj [(''finalAmount'', JNum 2000)]"]
  have r1: "RequestSummary_satoshis decode_1500 (JObj [(''finalAmount'', JNum 2000)])
      (JStr ''lnbc15u'') = Inr (JNum 2000)"
    by simp
  from t [of "JObj [(''finalAmount'', JNum 0)]"]
  have r2: "RequestSummary_satoshis decode_1500 (JObj [(''finalAmount'', JNum 0)])
      (JStr ''lnbc15u'') = Inr (JNum 1500)"
    by simp
  from t [of Undefined]
  have r3: "RequestSummary_satoshis decode_1500 Undefined (JStr ''lnbc15u'') = Inr (JNum 1500)"
    and r4: "RequestSummary_satoshis decode_1500 Null (JStr ''lnbc15u'') = Inl TypeError"
    by simp_all
  from b c r1 r2 r3 r4 show ?thesis by (intro conjI)
qed

section \<open>The version and commit strings\<close>

lemma version_state_version: "version (state_version v) = Inr (JStr v)"
  by (simp add: version_def state_version_def get_def baseGet_def castPath_def)

lemma replace_prefix: "pat \<noteq> [] \<Longrightarrow> replace pat rep (pat @ rest) = rep @ rest"
  by (cases pat) simp_all

lemma second_piece:
  "bindE (call_split (JStr s) CHR '' '') (\<lambda>parts. member parts ''1'') =
     Inr (if CHR '' '' \<in> set s then JStr (second_piece_of s) else Undefined)"
  by (simp add: member_def getprop_split_1 second_piece_of_def del: getprop.simps)

lemma second_piece_of_no_space:
  assumes "CHR '' '' \<notin> set s"
  shows "second_piece_of s = []"
proof -
  from assms have d: "dropWhile (\<lambda>c. c \<noteq> CHR '' '') s = []"
    by (auto simp: dropWhile_eq_Nil_conv)
  show ?thesis unfolding second_piece_of_def d by simp
qed

text \<open>
  Claim C10, as the code has it. The pieces of the version are cut at single space
  characters, and \<open>replace\<close> takes off the first occurrence of \<open>commit=\<close>, wherever it
  stands. \<open>versionString\<close> returns the part of the version before its first space, and
  the version itself when it is \<open>undefined\<close>, \<open>null\<close> or empty. \<open>commitString\<close> returns
  \<open>undefined\<close> when the version is \<open>undefined\<close>, \<open>null\<close> or empty, or when the part
  between the first and the second space is missing or empty; otherwise it returns that
  part with the first occurrence of \<open>commit=\<close> removed, which is the leading
  \<open>commit=\<close> when the part starts with it. A version that is truthy and not a string
  makes both selectors throw.
\<close>

theorem version_and_commit_strings:
  assumes "version state = Inr v"
  shows "select versionString state =
           (case v of
              JStr s \<Rightarrow> Inr (JStr (first_piece_of s))
            | _ \<Rightarrow> if truthy v then Inl TypeError else Inr v)
       \<and> select commitString state =
           (case v of
              JStr s \<Rightarrow>
                if second_piece_of s = [] then Inr Undefined
                else Inr (JStr (replace ''commit='' [] (second_piece_of s)))
            | _ \<Rightarrow> if truthy v then Inl TypeError else Inr Undefined)
       \<and> (\<forall>rest. replace ''commit='' [] (''commit='' @ rest) = rest)"
proof (intro conjI)
  show "select versionString state =
           (case v of
              JStr s \<Rightarrow> Inr (JStr (first_piece_of s))
            | _ \<Rightarrow> if truthy v then Inl TypeError else Inr v)"
  proof (cases v)
    case (JStr s)
    with assms show ?thesis
      by (cases "s = []")
        (simp_all add: versionString_def select_createSelector1 js_and_def first_piece
          first_piece_of_def del: call_split.simps)
  qed (use assms in \<open>simp_all add: versionString_def select_createSelector1 js_and_def\<close>)
next
  show "select commitString state =
           (case v of
              JStr s \<Rightarrow>
                if second_piece_of s = [] then Inr Undefined
                else Inr (JStr (replace ''commit='' [] (second_piece_of s)))
            | _ \<Rightarrow> if truthy v then Inl TypeError else Inr Undefined)"
  proof (cases v)
    case (JStr s)
    show ?thesis
    proof (cases "s = []")
      case True
      with JStr assms show ?thesis
        by (simp add: commitString_def select_createSelector1 second_piece_of_def)
    next
      case False
      with JStr assms have "select commitString state =
          bindE (bindE (call_split (JStr s) CHR '' '') (\<lambda>parts. member parts ''1''))
            (\<lambda>c. if truthy c then call_replace c ''commit='' [] else Inr Undefined)"
        by (simp add: commitString_def select_createSelector1 del: call_split.simps)
      also have "\<dots> = (if second_piece_of s = [] then Inr Undefined
                else Inr (JStr (replace ''commit='' [] (second_piece_of s))))"
        unfolding second_piece by (simp add: second_piece_of_no_space)
      finally show ?thesis using JStr by simp
    qed
  qed (use assms in \<open>simp_all add: commitString_def select_createSelector1\<close>)
next
  show "\<forall>rest. replace ''commit='' [] (''commit='' @ rest) = rest"
    using replace_prefix [of "''commit=''" "[]"] by simp
qed

text \<open>On a version as the node reports it, the two selectors return the version and
  the commit.\<close>

theorem version_and_commit_strings_witness:
  "version (state_version ''0.10.0-beta commit=v0.10.0-beta'') =
     Inr (JStr ''0.10.0-beta commit=v0.10.0-beta'')
   \<and> select versionString (state_version ''0.10.0-beta commit=v0.10.0-beta'') =
       Inr (JStr ''0.10.0-beta'')
   \<and> select commitString (state_version ''0.10.0-beta commit=v0.10.0-beta'') =
       Inr (JStr ''v0.10.0-beta'')"
proof -
  note v = version_state_version [of "''0.10.0-beta commit=v0.10.0-beta''"]
  from version_and_commit_strings [OF v] v show ?thesis
    by (simp add: first_piece_of_def second_piece_of_def)
qed

text \<open>
  Claim C10, as the specification words it, fails on three versions. With \<open>commit=\<close>
  inside the second token, the code removes it although it is not a leading prefix. With
  two spaces between the tokens, the code finds an empty second piece and returns
  \<open>undefined\<close> although there is a second token. With a leading space, the code
  returns the empty string, not the first token.
\<close>

theorem version_and_commit_strings_counterexample:
  "select commitString (state_version ''0.10.0-beta xcommit=abc'') \<noteq>
     Inr (spec_commitString (JStr ''0.10.0-beta xcommit=abc''))
   \<and> select commitString (state_version ''0.10.0-beta xcommit=abc'') = Inr (JStr ''xabc'')
   \<and> spec_commitString (JStr ''0.10.0-beta xcommit=abc'') = JStr ''xcommit=abc''
   \<and> select commitString (state_version ''0.10.0-beta  commit=abc'') \<noteq>
     Inr (spec_commitString (JStr ''0.10.0-beta  commit=abc''))
   \<and> select commitString (state_version ''0.10.0-beta  commit=abc'') = Inr Undefined
   \<and> spec_commitString (JStr ''0.10.0-beta  commit=abc'') = JStr ''abc''
   \<and> select versionString (state_version '' 0.10.0-beta'') \<noteq>
     Inr (spec_versionString (JStr '' 0.10.0-beta''))
   \<and> select versionString (state_version '' 0.10.0-beta'') = Inr (JStr [])
   \<and> spec_versionString (JStr '' 0.10.0-beta'') = JStr ''0.10.0-beta''"
  by (simp add: commitString_def versionString_def select_createSelector1 version_state_version
      member_def index_of_0 index_of_1 js_and_def
      spec_commitString_def spec_versionString_def tokens_def is_whitespace_def strip_prefix_def)

section \<open>Selectors that throw on missing data\<close>

text \<open>
  Claim C1 asks that a selector answers missing data with a default and never throws.
  Two selectors do throw. \<open>nodePubkey\<close>, on a state with no identity pubkey and an
  empty list of uris: the empty list is truthy, its first element is \<open>undefined\<close>, and
  \<open>split\<close> is called on that. \<open>networkInfo\<close>, on a state whose networks have no entry
  for the current network, whatever the settings are: \<open>get\<close> supplies the default
  \<open>{}\<close>, whose \<open>explorerUrls\<close> is \<open>undefined\<close>, and that is indexed.
\<close>

theorem defaulting_selectors_throw:
  "select nodePubkey state_empty_uris = Inl TypeError
   \<and> (\<forall>settings_currentConfig.
        select (networkInfo settings_currentConfig) state_unknown_network = Inl TypeError)"
proof (intro conjI allI)
  show "select nodePubkey state_empty_uris = Inl TypeError"
    by (simp add: nodePubkey_def select_createSelector2 nodeUris_def identityPubkey_def
        state_empty_uris_def get_def baseGet_def castPath_def js_or_def js_and_def member_def
        index_of_0)
next
  fix settings_currentConfig
  have chain: "chainSelector state_unknown_network = Inr (JStr ''bitcoin'')"
    and network: "networkSelector state_unknown_network = Inr (JStr ''simnet'')"
    by (simp_all add: chainSelector_def networkSelector_def state_unknown_network_def member_def)
  have info: "bindE (networksSelector state_unknown_network)
      (\<lambda>networks. Inr (get networks ''bitcoin.simnet'' (JObj []))) = Inr (JObj [])"
    by (simp add: networksSelector_def state_unknown_network_def member_def get_def baseGet_def
        castPath_def)
  show "select (networkInfo settings_currentConfig) state_unknown_network = Inl TypeError"
  proof (cases "networksSelector state_unknown_network")
    case (Inl e)
    with info show ?thesis by simp
  next
    case n: (Inr networks)
    with info have g: "get networks ''bitcoin.simnet'' (JObj []) = JObj []" by simp
    show ?thesis
    proof (cases "select settings_currentConfig state_unknown_network")
      case (Inl e)
      then show ?thesis
        by (cases e) (simp add: networkInfo_def select_createSelector4 chain network n)
    next
      case (Inr currentConfig)
      then show ?thesis
        by (simp add: networkInfo_def select_createSelector4 chain network n g member_def)
    qed
  qed
qed

section \<open>Memoised selectors\<close>

text \<open>
  As long as \<open>===\<close> holds only between values that are equal (a snapshot is not
  changed in place), a consistent cache changes nothing: a call of the memoised selector
  returns what the selector computes from the state, and leaves the cache consistent.
\<close>

lemma list_all2_same_eq:
  assumes "\<And>a b. same a b \<Longrightarrow> a = b"
  shows "list_all2 same xs ys \<Longrightarrow> xs = ys"
  by (induction xs ys rule: list_all2_induct) (auto dest: assms)

lemma memo_hit_Some:
  assumes "\<And>a b. same a b \<Longrightarrow> a = b" and "memo_hit same kept args = Some r"
  shows "kept = Some (args, r)"
  using assms(2) list_all2_same_eq [of same _ args, OF assms(1)]
  by (auto simp: memo_hit_def split: option.splits if_splits)

lemma run_deps_select:
  assumes "\<And>d c. d \<in> set ds \<Longrightarrow> cache_ok d c \<Longrightarrow>
             fst (run same d c state) = select d state
             \<and> cache_ok d (snd (run same d c state))"
    and "caches_ok ds cs"
  shows "fst (run_deps same ds cs state) = collect (map (\<lambda>d. select d state) ds)
       \<and> caches_ok ds (snd (run_deps same ds cs state))"
  using assms
proof (induction ds arbitrary: cs)
  case Nil
  then show ?case by simp
next
  case (Cons d ds)
  from Cons.prems(2) have okd: "cache_ok d (hd_cache cs)" and okds: "caches_ok ds (tl cs)"
    by simp_all
  from Cons.prems(1) [of d, OF _ okd]
  have d: "fst (run same d (hd_cache cs) state) = select d state"
    "cache_ok d (snd (run same d (hd_cache cs) state))" by simp_all
  from Cons.IH [OF _ okds] Cons.prems(1)
  have ds: "fst (run_deps same ds (tl cs) state) = collect (map (\<lambda>d. select d state) ds)"
    "caches_ok ds (snd (run_deps same ds (tl cs) state))" by simp_all
  obtain r c' where rd: "run same d (hd_cache cs) state = (r, c')"
    by (cases "run same d (hd_cache cs) state")
  obtain rs cs' where rds: "run_deps same ds (tl cs) state = (rs, cs')"
    by (cases "run_deps same ds (tl cs) state")
  from d rd have sel_d: "select d state = r" and ok_c': "cache_ok d c'" by simp_all
  from ds rds have sel_ds: "collect (map (\<lambda>d. select d state) ds) = rs"
    and ok_cs': "caches_ok ds cs'" by simp_all
  show ?case
  proof (cases r)
    case (Inl e)
    then show ?thesis by (simp add: rd sel_d ok_c' okds)
  next
    case (Inr v)
    then show ?thesis by (simp add: rd rds sel_d sel_ds ok_c' ok_cs')
  qed
qed

lemma run_select:
  assumes same: "\<And>a b. same a b \<Longrightarrow> a = b"
  shows "cache_ok sel c \<Longrightarrow>
           fst (run same sel c state) = select sel state
           \<and> cache_ok sel (snd (run same sel c state))"
proof (induction sel arbitrary: c)
  case (Plain f)
  then show ?case by simp
next
  case (Created deps f)
  obtain outer inner dcs where c: "c = Cache outer inner dcs" by (cases c)
  from Created.prems c have
    outer_ok: "case outer of None \<Rightarrow> True
               | Some (args, r) \<Rightarrow> (case args of [s] \<Rightarrow> select (Created deps f) s = Inr r | _ \<Rightarrow> False)"
    and inner_ok: "case inner of None \<Rightarrow> True | Some (params, r) \<Rightarrow> f params = Inr r"
    and deps_ok: "caches_ok deps dcs"
    by simp_all
  show ?case
  proof (cases "memo_hit same outer [state]")
    case (Some r)
    from memo_hit_Some [OF same Some] have "outer = Some ([state], r)" .
    with outer_ok inner_ok deps_ok c Some show ?thesis by simp
  next
    case None
    obtain ps dcs' where rd: "run_deps same deps dcs state = (ps, dcs')"
      by (cases "run_deps same deps dcs state")
    from run_deps_select [of deps same state dcs, OF Created.IH deps_ok] rd
    have ps: "collect (map (\<lambda>d. select d state) deps) = ps" and ok': "caches_ok deps dcs'"
      by simp_all
    show ?thesis
    proof (cases ps)
      case (Inl e)
      then show ?thesis by (simp add: c None rd ps ok' outer_ok inner_ok)
    next
      case (Inr params)
      show ?thesis
      proof (cases "memo_hit same inner params")
        case hit: (Some r)
        from memo_hit_Some [OF same hit] have "inner = Some (params, r)" .
        with inner_ok have "f params = Inr r" by simp
        then show ?thesis by (simp add: c None rd ps ok' Inr hit)
      next
        case miss: None
        show ?thesis
        proof (cases "f params")
          case e: (Inl e)
          then show ?thesis by (simp add: c None rd ps ok' Inr miss outer_ok inner_ok)
        next
          case r: (Inr r)
          then show ?thesis by (simp add: c None rd ps ok' Inr miss)
        qed
      qed
    qed
  qed
qed

lemma caches_ok_Nil:
  "(\<And>d. d \<in> set ds \<Longrightarrow> cache_ok d empty_cache) \<Longrightarrow> caches_ok ds []"
  by (induction ds) simp_all

lemma cache_ok_empty: "cache_ok sel empty_cache"
proof (induction sel)
  case (Plain f)
  show ?case by simp
next
  case (Created deps f)
  then have "caches_ok deps []" by (rule caches_ok_Nil)
  then show ?case by (simp add: empty_cache_def)
qed

lemma run_all_ok:
  assumes "\<And>a b. same a b \<Longrightarrow> a = b"
  shows "cache_ok sel c \<Longrightarrow> cache_ok sel (run_all same sel c states)"
  by (induction states arbitrary: c) (simp_all add: run_select [OF assms])

text \<open>
  So a call of a memoised selector, after calls on any states before it, returns what
  the selector computes from the state: the meaning \<open>select\<close> of a selector is what
  every call of it returns.
\<close>

lemma run_after_history:
  assumes "\<And>a b. same a b \<Longrightarrow> a = b"
  shows "fst (run same sel (run_all same sel empty_cache earlier) state) = select sel state"
  using run_select [OF assms run_all_ok [OF assms cache_ok_empty]] by blast

text \<open>
  The condition on \<open>===\<close> is needed. When a snapshot is changed in place, one object
  carries two values in turn; the memoised selector then finds the arguments it kept and
  answers with the result it kept. Here every two values count as the same object: after
  a call on the loaded state, the call on the state without node info still reports
  router support, which a first call on that state denies.
\<close>

lemma run_stale_after_change_in_place:
  "fst (run (\<lambda>a b. True) (hasRouterSupport gte_always)
          (run_all (\<lambda>a b. True) (hasRouterSupport gte_always) empty_cache [state_loaded])
          state_no_data) = Inr (JBool True)
   \<and> fst (run (\<lambda>a b. True) (hasRouterSupport gte_always) empty_cache state_no_data) =
       Inr (JBool False)"
  by (simp add: hasRouterSupport_def createSelector1_def empty_cache_def memo_hit_def
      grpcProtoVersion_state_loaded grpcProtoVersion_state_no_data gte_always_def)

end
